theory Spec2Isabelle
  imports Complex_Main "HOL-Library.AList"
begin

section \<open>Documents and the JSON storage\<close>

text \<open>
  The program keeps three documents (inventory, transactions, users), each a Python
  dictionary from an identifier to a record, written with \<^verbatim>\<open>json.dumps\<close> and read
  back with \<^verbatim>\<open>json.loads\<close>.  The values the program itself writes are strings,
  integers, lists and dictionaries with string keys; these are the JSON values of the
  model.  A dictionary is an association list: \<open>map_of\<close> is the lookup,
  \<open>AList.update\<close> is the assignment \<^verbatim>\<open>d[k] = v\<close> (in place for a key already there,
  appended otherwise, as a Python dict does) and \<open>AList.delete\<close> is \<^verbatim>\<open>del d[k]\<close>.
\<close>

datatype json =
    JStr string
  | JInt int
  | JList "json list"
  | JObj "(string \<times> json) list"

type_synonym document = "(string \<times> json) list"

text \<open>The exceptions of Python that the modelled code can raise
  (\<open>InvalidOperation\<close> is that of the \<^verbatim>\<open>decimal\<close> module).  \<open>NotFinite\<close> is not an
  exception: it marks a decimal value that is an infinity or a NaN, which the model of
  decimal numbers below does not cover.\<close>

datatype error =
    KeyError
  | ValueError
  | TypeError
  | AttributeError
  | InvalidOperation
  | NotFinite

text \<open>
  \<^verbatim>\<open>JSONStorage\<close>.  The file behind a storage object is missing, unreadable as JSON
  (\<^verbatim>\<open>json.JSONDecodeError\<close>), or holds a document.  \<^verbatim>\<open>load_data\<close> returns the empty
  dictionary in the first two cases.  \<^verbatim>\<open>save_data\<close> catches \<^verbatim>\<open>PermissionError\<close> and
  \<^verbatim>\<open>IOError\<close>, prints a message and returns normally: \<open>writable\<close> says whether the
  write goes through, and a refused write leaves the file as it was.  The text printed on
  the terminal is not part of the model.
\<close>

datatype file_state = Missing | Corrupt | Document document

record storage =
  contents :: file_state
  writable :: bool

definition load_data :: "storage \<Rightarrow> document" where
  "load_data st = (case contents st of Document d \<Rightarrow> d | Missing \<Rightarrow> [] | Corrupt \<Rightarrow> [])"

definition save_data :: "storage \<Rightarrow> document \<Rightarrow> storage" where
  "save_data st d = (if writable st then st\<lparr>contents := Document d\<rparr> else st)"

subsection \<open>Python's \<^verbatim>\<open>int()\<close> on the values of a document\<close>

text \<open>
  \<^verbatim>\<open>int(x)\<close> for a string \<open>x\<close>: surrounding white space is dropped, one sign is
  allowed, then come decimal digits, where single underscores may stand between two
  digits; anything else is a \<^verbatim>\<open>ValueError\<close>, and so is a numeral of more than 4300
  digits (the interpreter's limit for the conversion).  Strings are byte strings here, so
  the digits and spaces are the ASCII ones.  \<^verbatim>\<open>int(x)\<close> for an integer is the integer,
  for a list or a dictionary a \<^verbatim>\<open>TypeError\<close>.
\<close>

definition is_space :: "char \<Rightarrow> bool" where
  "is_space c = (let n = (of_char c :: nat) in (9 \<le> n \<and> n \<le> 13) \<or> (28 \<le> n \<and> n \<le> 32))"

definition is_digit :: "char \<Rightarrow> bool" where
  "is_digit c = (let n = (of_char c :: nat) in 48 \<le> n \<and> n \<le> 57)"

definition digit_val :: "char \<Rightarrow> nat" where
  "digit_val c = of_char c - 48"

definition digits_val :: "string \<Rightarrow> nat" where
  "digits_val s = foldl (\<lambda>a c. 10 * a + digit_val c) 0 s"

definition strip :: "string \<Rightarrow> string" where
  "strip s = rev (dropWhile is_space (rev (dropWhile is_space s)))"

fun underscores_ok :: "string \<Rightarrow> bool" where
  "underscores_ok [] = False"
| "underscores_ok [c] = is_digit c"
| "underscores_ok (c # d # s) =
     (if is_digit c then
        (if d = CHR ''_'' then (case s of [] \<Rightarrow> False | e # _ \<Rightarrow> is_digit e \<and> underscores_ok s)
         else underscores_ok (d # s))
      else False)"

definition int_max_str_digits :: nat where
  "int_max_str_digits = 4300"

definition int_of_str :: "string \<Rightarrow> error + int" where
  "int_of_str s =
     (let t = strip s;
          neg = (case t of [] \<Rightarrow> False | c # _ \<Rightarrow> c = CHR ''-'');
          body = (case t of [] \<Rightarrow> [] | c # r \<Rightarrow> if c = CHR ''-'' \<or> c = CHR ''+'' then r else t);
          ds = filter is_digit body
      in if underscores_ok body \<and> length ds \<le> int_max_str_digits
         then Inr (if neg then - int (digits_val ds) else int (digits_val ds))
         else Inl ValueError)"

fun py_int :: "json \<Rightarrow> error + int" where
  "py_int (JInt n) = Inr n"
| "py_int (JStr s) = int_of_str s"
| "py_int (JList _) = Inl TypeError"
| "py_int (JObj _) = Inl TypeError"

text \<open>\<^verbatim>\<open>record[key]\<close> on a value of a document: a \<^verbatim>\<open>KeyError\<close> for a dictionary
  without the key, a \<^verbatim>\<open>TypeError\<close> for a value that is not a dictionary.\<close>

fun getitem :: "json \<Rightarrow> string \<Rightarrow> error + json" where
  "getitem (JObj flds) k = (case map_of flds k of None \<Rightarrow> Inl KeyError | Some v \<Rightarrow> Inr v)"
| "getitem _ k = Inl TypeError"

text \<open>\<^verbatim>\<open>record[key] = v\<close>: a \<^verbatim>\<open>TypeError\<close> for a value that is not a dictionary.\<close>

fun setitem :: "json \<Rightarrow> string \<Rightarrow> json \<Rightarrow> error + json" where
  "setitem (JObj flds) k v = Inr (JObj (AList.update k v flds))"
| "setitem _ k v = Inl TypeError"

text \<open>\<^verbatim>\<open>record.update(updates)\<close>: each pair is assigned in turn; a value that is not
  a dictionary has no such method.\<close>

definition dict_update :: "document \<Rightarrow> document \<Rightarrow> document" where
  "dict_update flds updates = foldl (\<lambda>d (k, v). AList.update k v d) flds updates"

section \<open>The inventory\<close>

text \<open>
  \<^verbatim>\<open>Product.to_dict\<close> writes the price with \<^verbatim>\<open>str\<close>; the price is a parameter of
  type \<open>'p\<close> here, with its \<^verbatim>\<open>str\<close> passed along, since the class is handed a
  \<^verbatim>\<open>Decimal\<close> by its declaration and a \<^verbatim>\<open>float\<close> by the admin menu.
\<close>

record 'p product =
  product_id :: string
  name :: string
  category :: string
  price :: 'p
  quantity :: int
  expiry_date :: string

definition product_to_dict :: "('p \<Rightarrow> string) \<Rightarrow> 'p product \<Rightarrow> json" where
  "product_to_dict str p = JObj
     [(''product_id'', JStr (product_id p)),
      (''name'', JStr (name p)),
      (''category'', JStr (category p)),
      (''price'', JStr (str (price p))),
      (''quantity'', JInt (quantity p)),
      (''expiry_date'', JStr (expiry_date p))]"

definition low_stock_threshold :: int where
  "low_stock_threshold = 5"

text \<open>
  Every operation of \<^verbatim>\<open>Inventory\<close> loads the whole document, works on it and, when
  it goes through, saves the whole document.  The result is what the call returns (or the
  exception it raises) and the storage afterwards.  The saving is the last statement of
  each method, so a call that raises has not touched the file.
\<close>

definition add_product :: "('p \<Rightarrow> string) \<Rightarrow> storage \<Rightarrow> 'p product \<Rightarrow> (error + bool) \<times> storage" where
  "add_product str st p =
     (let inventory = load_data st in
      case map_of inventory (product_id p) of
        Some _ \<Rightarrow> (Inr False, st)
      | None \<Rightarrow>
          (Inr True, save_data st (AList.update (product_id p) (product_to_dict str p) inventory)))"

definition update_prodcut :: "storage \<Rightarrow> string \<Rightarrow> document \<Rightarrow> (error + bool) \<times> storage" where
  "update_prodcut st pid updates =
     (let inventory = load_data st in
      case map_of inventory pid of
        None \<Rightarrow> (Inr False, st)
      | Some (JObj flds) \<Rightarrow>
          (Inr True, save_data st (AList.update pid (JObj (dict_update flds updates)) inventory))
      | Some _ \<Rightarrow> (Inl AttributeError, st))"

definition delete_product :: "storage \<Rightarrow> string \<Rightarrow> (error + bool) \<times> storage" where
  "delete_product st pid =
     (let inventory = load_data st in
      case map_of inventory pid of
        None \<Rightarrow> (Inr False, st)
      | Some _ \<Rightarrow> (Inr True, save_data st (AList.delete pid inventory)))"

text \<open>The quantity of a stored record as \<^verbatim>\<open>adjust_stock\<close> reads it:
  \<^verbatim>\<open>int(inventory[product_id]["quantity"])\<close>.\<close>

definition quantity_of :: "json \<Rightarrow> error + int" where
  "quantity_of r = (case getitem r ''quantity'' of Inl e \<Rightarrow> Inl e | Inr q \<Rightarrow> py_int q)"

definition adjust_stock :: "storage \<Rightarrow> string \<Rightarrow> int \<Rightarrow> (error + bool) \<times> storage" where
  "adjust_stock st pid quantity_change =
     (let inventory = load_data st in
      case map_of inventory pid of
        None \<Rightarrow> (Inr False, st)
      | Some r \<Rightarrow>
          (case quantity_of r of
             Inl e \<Rightarrow> (Inl e, st)
           | Inr q \<Rightarrow>
               (let new_quantity = q + quantity_change in
                if new_quantity < 0 then (Inr False, st)
                else
                  (case setitem r ''quantity'' (JInt new_quantity) of
                     Inl e \<Rightarrow> (Inl e, st)
                   | Inr r' \<Rightarrow>
                       (case (if new_quantity \<le> low_stock_threshold
                              then getitem r' ''name'' else Inr (JStr [])) of
                          Inl e \<Rightarrow> (Inl e, st)
                        | Inr _ \<Rightarrow> (Inr True, save_data st (AList.update pid r' inventory)))))))"

subsection \<open>Properties of the inventory operations\<close>

text \<open>Every stored record has a quantity that \<^verbatim>\<open>int()\<close> reads as a number that is
  not negative.\<close>

definition stock_nonneg :: "storage \<Rightarrow> bool" where
  "stock_nonneg st =
     list_all (\<lambda>(pid, r). case quantity_of r of Inr q \<Rightarrow> 0 \<le> q | Inl _ \<Rightarrow> False) (load_data st)"


text \<open>The catalog of the scenario in the specification: one product \<open>P1\<close> with ten
  pieces in stock.\<close>

definition tea_fields :: document where
  "tea_fields =
     [(''product_id'', JStr ''P1''), (''name'', JStr ''tea''), (''category'', JStr ''food''),
      (''price'', JStr ''10.00''), (''quantity'', JInt 10), (''expiry_date'', JStr ''2026-12-04'')]"

definition tea :: json where
  "tea = JObj tea_fields"

definition shop :: storage where
  "shop = \<lparr>contents = Document [(''P1'', tea)], writable = True\<rparr>"

lemma load_save: "load_data (save_data st d) = (if writable st then d else load_data st)"
  by (simp add: load_data_def save_data_def)



lemma adjust_stock_unchanged_or_saved:
  "snd (adjust_stock st pid d) = st \<or>
   (\<exists>r r' q. map_of (load_data st) pid = Some r \<and> quantity_of r = Inr q \<and> 0 \<le> q + d \<and>
      setitem r ''quantity'' (JInt (q + d)) = Inr r' \<and>
      fst (adjust_stock st pid d) = Inr True \<and>
      snd (adjust_stock st pid d) = save_data st (AList.update pid r' (load_data st)))"
  by (auto simp: adjust_stock_def Let_def split: option.splits sum.splits)




lemmas shop_simps =
  shop_def tea_def tea_fields_def load_data_def save_data_def quantity_of_def adjust_stock_def
  low_stock_threshold_def stock_nonneg_def Let_def







text \<open>
  Claim C10.  Each failure of a catalog operation returns \<open>False\<close> and leaves the storage
  exactly as it was: \<^verbatim>\<open>add_product\<close> for an identifier already there;
  \<^verbatim>\<open>update_prodcut\<close>, \<^verbatim>\<open>delete_product\<close> and \<^verbatim>\<open>adjust_stock\<close> for an identifier
  that is not there; \<^verbatim>\<open>adjust_stock\<close> for a change that would bring the quantity
  below 0.  More generally, a call of any of the four that does not return \<open>True\<close> (it
  returns \<open>False\<close> or raises) has written nothing.
\<close>

theorem inventory_failure_writes_nothing:
  "(map_of (load_data st) (product_id p) \<noteq> None \<longrightarrow> add_product str st p = (Inr False, st)) \<and>
   (map_of (load_data st) pid = None \<longrightarrow>
      update_prodcut st pid updates = (Inr False, st) \<and>
      delete_product st pid = (Inr False, st) \<and>
      adjust_stock st pid d = (Inr False, st)) \<and>
   (map_of (load_data st) pid = Some r \<and> quantity_of r = Inr q \<and> q + d < 0 \<longrightarrow>
      adjust_stock st pid d = (Inr False, st)) \<and>
   (fst (add_product str st p) \<noteq> Inr True \<longrightarrow> snd (add_product str st p) = st) \<and>
   (fst (update_prodcut st pid updates) \<noteq> Inr True \<longrightarrow> snd (update_prodcut st pid updates) = st) \<and>
   (fst (delete_product st pid) \<noteq> Inr True \<longrightarrow> snd (delete_product st pid) = st) \<and>
   (fst (adjust_stock st pid d) \<noteq> Inr True \<longrightarrow> snd (adjust_stock st pid d) = st)"
proof (intro conjI impI)
  assume "map_of (load_data st) (product_id p) \<noteq> None"
  then show "add_product str st p = (Inr False, st)"
    by (auto simp: add_product_def Let_def)
next
  assume "map_of (load_data st) pid = None"
  then show "update_prodcut st pid updates = (Inr False, st)"
    and "delete_product st pid = (Inr False, st)"
    and "adjust_stock st pid d = (Inr False, st)"
    by (simp_all add: update_prodcut_def delete_product_def adjust_stock_def)
next
  assume "map_of (load_data st) pid = Some r \<and> quantity_of r = Inr q \<and> q + d < 0"
  then show "adjust_stock st pid d = (Inr False, st)"
    by (simp add: adjust_stock_def)
next
  assume "fst (add_product str st p) \<noteq> Inr True"
  then show "snd (add_product str st p) = st"
    by (simp add: add_product_def Let_def split: option.splits)
next
  assume "fst (update_prodcut st pid updates) \<noteq> Inr True"
  then show "snd (update_prodcut st pid updates) = st"
    by (simp add: update_prodcut_def Let_def split: option.splits json.splits)
next
  assume "fst (delete_product st pid) \<noteq> Inr True"
  then show "snd (delete_product st pid) = st"
    by (simp add: delete_product_def Let_def split: option.splits)
next
  assume "fst (adjust_stock st pid d) \<noteq> Inr True"
  with adjust_stock_unchanged_or_saved [of st pid d]
  show "snd (adjust_stock st pid d) = st"
    by blast
qed

definition tea_product :: "string product" where
  "tea_product = \<lparr>product_id = ''P1'', name = ''tea'', category = ''food'', price = ''10.00'',
     quantity = 10, expiry_date = ''2026-12-04''\<rparr>"

theorem inventory_failure_writes_nothing_witness:
  "map_of (load_data shop) (product_id tea_product) \<noteq> None \<and>
   add_product id shop tea_product = (Inr False, shop) \<and>
   map_of (load_data shop) ''P9'' = None \<and>
   update_prodcut shop ''P9'' [(''price'', JStr ''12.50'')] = (Inr False, shop) \<and>
   delete_product shop ''P9'' = (Inr False, shop) \<and>
   adjust_stock shop ''P9'' (- 1) = (Inr False, shop) \<and>
   map_of (load_data shop) ''P1'' = Some tea \<and> quantity_of tea = Inr 10 \<and>
   adjust_stock shop ''P1'' (- 11) = (Inr False, shop) \<and>
   fst (adjust_stock shop ''P1'' (- 11)) \<noteq> Inr True \<and>
   snd (adjust_stock shop ''P1'' (- 11)) = shop"
proof -
  let ?ups = "[(''price'', JStr ''12.50'')]"
  have dup: "map_of (load_data shop) (product_id tea_product) \<noteq> None"
    by (simp add: shop_simps tea_product_def)
  have absent: "map_of (load_data shop) ''P9'' = None"
    by (simp add: shop_simps)
  have present: "map_of (load_data shop) ''P1'' = Some tea \<and> quantity_of tea = Inr 10"
    by (simp add: shop_simps)
  have 1: "add_product id shop tea_product = (Inr False, shop)"
    using inventory_failure_writes_nothing [of shop tea_product id] dup by blast
  have 2: "update_prodcut shop ''P9'' ?ups = (Inr False, shop) \<and>
      delete_product shop ''P9'' = (Inr False, shop) \<and>
      adjust_stock shop ''P9'' (- 1) = (Inr False, shop)"
    using inventory_failure_writes_nothing [of shop tea_product id "''P9''" ?ups "- 1"] absent
    by blast
  have 3: "adjust_stock shop ''P1'' (- 11) = (Inr False, shop)"
    using inventory_failure_writes_nothing [of shop tea_product id "''P1''" ?ups "- 11" tea 10]
      present
    by simp
  then have 4: "fst (adjust_stock shop ''P1'' (- 11)) \<noteq> Inr True" by simp
  then have 5: "snd (adjust_stock shop ''P1'' (- 11)) = shop"
    using inventory_failure_writes_nothing [of shop tea_product id "''P1''" ?ups "- 11"]
    by blast
  from dup 1 absent 2 present 3 4 5 show ?thesis by blast
qed

section \<open>Users\<close>

text \<open>
  \<^verbatim>\<open>str.lower()\<close> on byte strings: the ASCII capitals become small letters.  (On a
  Python string it also lowers capitals outside ASCII; none of them becomes one of the
  letters of \<open>admin\<close>, so the comparison below is the same.)
\<close>

definition lower_char :: "char \<Rightarrow> char" where
  "lower_char c =
     (case map_of (zip ''ABCDEFGHIJKLMNOPQRSTUVWXYZ'' ''abcdefghijklmnopqrstuvwxyz'') c of
        Some l \<Rightarrow> l
      | None \<Rightarrow> c)"

definition lower :: "string \<Rightarrow> string" where
  "lower s = map lower_char s"

text \<open>The record \<^verbatim>\<open>register\<close> stores for a new user.\<close>

definition salesman_record :: "string \<Rightarrow> json" where
  "salesman_record password = JObj [(''password'', JStr password), (''role'', JStr ''salesman'')]"

text \<open>\<^verbatim>\<open>User.register\<close>, for a user object made from a user name and a password; the
  storage is the user document.\<close>

definition register :: "storage \<Rightarrow> string \<Rightarrow> string \<Rightarrow> bool \<times> storage" where
  "register st username password =
     (if lower username = ''admin'' then (False, st)
      else
        (let user_data = load_data st in
         if map_of user_data username \<noteq> None then (False, st)
         else (True, save_data st (AList.update username (salesman_record password) user_data))))"

definition no_users :: storage where
  "no_users = \<lparr>contents = Missing, writable = True\<rparr>"

text \<open>
  Claim C8, as stated, fails for a user name that is not \<open>admin\<close> itself but is spelt
  with capitals: \<open>Admin\<close> is not in the (empty) user document and is not the string
  \<open>admin\<close>, and registering it returns \<open>False\<close> and creates nothing.
\<close>

theorem register_Admin_counterexample:
  "''Admin'' \<noteq> ''admin'' \<and> map_of (load_data no_users) ''Admin'' = None \<and>
   register no_users ''Admin'' ''secret'' = (False, no_users)"
  by (simp add: register_def lower_def lower_char_def no_users_def load_data_def)

text \<open>
  Claim C8, amended.  \<^verbatim>\<open>register\<close> returns \<open>False\<close> and writes nothing for every user
  name whose lower-case form is \<open>admin\<close> (\<open>admin\<close>, \<open>Admin\<close>, \<open>ADMIN\<close>, ...), whatever
  the user document holds, and for every user name already in the document.  For any other
  user name it returns \<open>True\<close> and saves the document with a new record for that name, holding
  the password and the role \<open>salesman\<close>; when the file is writable the document then has
  that record and every other user's record as before.
\<close>

theorem register_outcomes:
  "(lower username = ''admin'' \<longrightarrow> register st username password = (False, st)) \<and>
   register st ''admin'' password = (False, st) \<and>
   (map_of (load_data st) username \<noteq> None \<longrightarrow> register st username password = (False, st)) \<and>
   (lower username \<noteq> ''admin'' \<and> map_of (load_data st) username = None \<longrightarrow>
      register st username password =
        (True, save_data st (AList.update username (salesman_record password) (load_data st))) \<and>
      (writable st \<longrightarrow>
         map_of (load_data (snd (register st username password))) username =
           Some (salesman_record password) \<and>
         (\<forall>other. other \<noteq> username \<longrightarrow>
            map_of (load_data (snd (register st username password))) other =
            map_of (load_data st) other)))"
proof (intro conjI impI)
  assume "lower username = ''admin''"
  then show "register st username password = (False, st)"
    by (simp add: register_def)
next
  show "register st ''admin'' password = (False, st)"
    by (simp add: register_def lower_def lower_char_def)
next
  assume "map_of (load_data st) username \<noteq> None"
  then show "register st username password = (False, st)"
    by (simp add: register_def Let_def)
next
  assume a: "lower username \<noteq> ''admin'' \<and> map_of (load_data st) username = None"
  then show r: "register st username password =
      (True, save_data st (AList.update username (salesman_record password) (load_data st)))"
    by (simp add: register_def Let_def)
  assume w: "writable st"
  from r w show "map_of (load_data (snd (register st username password))) username =
      Some (salesman_record password)"
    by (simp add: load_save update_conv')
  from r w show "\<forall>other. other \<noteq> username \<longrightarrow>
      map_of (load_data (snd (register st username password))) other =
      map_of (load_data st) other"
    by (simp add: load_save update_conv')
qed

theorem register_outcomes_witness:
  "lower ''ADMIN'' = ''admin'' \<and> register no_users ''ADMIN'' ''secret'' = (False, no_users) \<and>
   lower ''bilal'' \<noteq> ''admin'' \<and> map_of (load_data no_users) ''bilal'' = None \<and>
   writable no_users \<and>
   fst (register no_users ''bilal'' ''secret'') = True \<and>
   map_of (load_data (snd (register no_users ''bilal'' ''secret''))) ''bilal'' =
     Some (salesman_record ''secret'') \<and>
   map_of (load_data (snd (register no_users ''bilal'' ''secret''))) ''bilal'' \<noteq> None \<and>
   register (snd (register no_users ''bilal'' ''secret'')) ''bilal'' ''other'' =
     (False, snd (register no_users ''bilal'' ''secret''))"
proof -
  let ?st = "snd (register no_users ''bilal'' ''secret'')"
  have a: "lower ''ADMIN'' = ''admin''"
    by (simp add: lower_def lower_char_def)
  have b: "lower ''bilal'' \<noteq> ''admin'' \<and> map_of (load_data no_users) ''bilal'' = None"
    by (simp add: lower_def lower_char_def no_users_def load_data_def)
  have w: "writable no_users"
    by (simp add: no_users_def)
  have 1: "register no_users ''ADMIN'' ''secret'' = (False, no_users)"
    using register_outcomes [of "''ADMIN''" no_users "''secret''"] a by blast
  have 2: "register no_users ''bilal'' ''secret'' =
      (True, save_data no_users (AList.update ''bilal'' (salesman_record ''secret'') (load_data no_users)))"
    and 3: "map_of (load_data ?st) ''bilal'' = Some (salesman_record ''secret'')"
    using register_outcomes [of "''bilal''" no_users "''secret''"] b w by blast+
  from 2 have 4: "fst (register no_users ''bilal'' ''secret'') = True" by simp
  from 3 have 5: "map_of (load_data ?st) ''bilal'' \<noteq> None" by simp
  then have 6: "register ?st ''bilal'' ''other'' = (False, ?st)"
    using register_outcomes [of "''bilal''" ?st "''other''"] by blast
  from a 1 b w 4 3 5 6 show ?thesis by blast
qed

section \<open>Numbers as text, dates and times\<close>

text \<open>\<^verbatim>\<open>str(n)\<close> for an integer.\<close>

definition digit_char :: "nat \<Rightarrow> char" where
  "digit_char d = ''0123456789'' ! d"

fun nat_str :: "nat \<Rightarrow> string" where
  "nat_str n = (if n < 10 then [digit_char n] else nat_str (n div 10) @ [digit_char (n mod 10)])"

definition int_str :: "int \<Rightarrow> string" where
  "int_str i = (if i < 0 then CHR ''-'' # nat_str (nat (- i)) else nat_str (nat i))"

text \<open>Dates and times: \<^verbatim>\<open>datetime.date\<close> and the naive \<^verbatim>\<open>datetime.datetime\<close>.\<close>

record pydate =
  year :: nat
  month :: nat
  day :: nat

record datetime =
  ddate :: pydate
  hour :: nat
  minute :: nat
  second :: nat
  microsecond :: nat

text \<open>\<^verbatim>\<open>"%0wd" % n\<close>: at least \<open>w\<close> digits, with zeros in front.\<close>

definition zero_pad :: "nat \<Rightarrow> nat \<Rightarrow> string" where
  "zero_pad w n = replicate (w - length (nat_str n)) (CHR ''0'') @ nat_str n"

text \<open>\<^verbatim>\<open>date.isoformat()\<close>.\<close>

definition date_isoformat :: "pydate \<Rightarrow> string" where
  "date_isoformat d = zero_pad 4 (year d) @ ''-'' @ zero_pad 2 (month d) @ ''-'' @ zero_pad 2 (day d)"


text \<open>The dates of the examples.\<close>

definition nov_3 :: pydate where
  "nov_3 = \<lparr>year = 2026, month = 11, day = 3\<rparr>"

definition dec_4 :: pydate where
  "dec_4 = \<lparr>year = 2026, month = 12, day = 4\<rparr>"

definition nov_3_at_10 :: datetime where
  "nov_3_at_10 = \<lparr>ddate = nov_3, hour = 10, minute = 0, second = 0, microsecond = 0\<rparr>"

section \<open>Decimal numbers\<close>

text \<open>
  Python's \<^verbatim>\<open>Decimal\<close>: a finite number is a sign, a coefficient and an exponent, with
  the value \<open>\<plusminus> coefficient \<times> 10\<^sup>e\<^sup>x\<^sup>p\<^sup>o\<^sup>n\<^sup>e\<^sup>n\<^sup>t\<close>.  The arithmetic is that of the default
  context, which the program never changes: a result is the exact one, rounded to 28
  significant digits, to the nearest and to an even last digit in a tie.  The model covers
  the finite numbers and leaves the exponent unbounded; the special values (infinities
  and NaNs) and the context's limits on the exponent (\<open>\<plusminus>999999\<close>) are outside it.
\<close>

record decimal =
  dsign :: bool
  dcoeff :: nat
  dexp :: int

definition prec :: nat where
  "prec = 28"

text \<open>The number of decimal digits of a coefficient: \<^verbatim>\<open>len(str(n))\<close>.\<close>

fun ndigits :: "nat \<Rightarrow> nat" where
  "ndigits n = (if n < 10 then 1 else Suc (ndigits (n div 10)))"

text \<open>The rounding of a result to the precision of the context (\<^verbatim>\<open>Decimal._fix\<close>
  with \<^verbatim>\<open>ROUND_HALF_EVEN\<close>): the last \<open>k\<close> digits are dropped, the rest goes up by one
  when the dropped part is more than half a unit, or exactly half and the rest is odd; a
  coefficient that reaches 29 digits by this loses its last zero.\<close>

definition dec_fix :: "decimal \<Rightarrow> decimal" where
  "dec_fix d =
     (if dcoeff d = 0 \<or> ndigits (dcoeff d) \<le> prec then d
      else
        (let k = ndigits (dcoeff d) - prec;
             q = dcoeff d div 10 ^ k;
             r = dcoeff d mod 10 ^ k;
             half = 5 * 10 ^ (k - 1);
             q' = (if half < r \<or> (r = half \<and> odd q) then q + 1 else q)
         in if q' = 10 ^ prec
            then d\<lparr>dcoeff := 10 ^ (prec - 1), dexp := dexp d + int k + 1\<rparr>
            else d\<lparr>dcoeff := q', dexp := dexp d + int k\<rparr>))"

text \<open>The coefficient with its sign, in units of \<open>10\<^sup>e\<close> for an \<open>e\<close> that is not above
  the exponent.\<close>

definition dec_scaled :: "int \<Rightarrow> decimal \<Rightarrow> int" where
  "dec_scaled e d =
     (if dsign d then - int (dcoeff d) else int (dcoeff d)) * 10 ^ nat (dexp d - e)"

text \<open>The sum before it is rounded (\<^verbatim>\<open>Decimal.__add__\<close>): at the smaller of the two
  exponents; when one operand is zero, the other one with its exponent lowered to the
  smaller one but by no more than \<open>prec + 1\<close>; the sum of two zeros is negative only when
  both are.\<close>

definition dec_add_exact :: "decimal \<Rightarrow> decimal \<Rightarrow> decimal" where
  "dec_add_exact a b =
     (let e = min (dexp a) (dexp b) in
      if dcoeff a = 0 \<and> dcoeff b = 0 then \<lparr>dsign = dsign a \<and> dsign b, dcoeff = 0, dexp = e\<rparr>
      else if dcoeff a = 0 then
        (let e' = max e (dexp b - int prec - 1)
         in \<lparr>dsign = dsign b, dcoeff = dcoeff b * 10 ^ nat (dexp b - e'), dexp = e'\<rparr>)
      else if dcoeff b = 0 then
        (let e' = max e (dexp a - int prec - 1)
         in \<lparr>dsign = dsign a, dcoeff = dcoeff a * 10 ^ nat (dexp a - e'), dexp = e'\<rparr>)
      else
        (let x = dec_scaled e a + dec_scaled e b
         in \<lparr>dsign = (x < 0), dcoeff = nat \<bar>x\<bar>, dexp = e\<rparr>))"

definition dec_add :: "decimal \<Rightarrow> decimal \<Rightarrow> decimal" where
  "dec_add a b = dec_fix (dec_add_exact a b)"




definition dec_eq :: "decimal \<Rightarrow> decimal \<Rightarrow> bool" where
  "dec_eq a b = (let e = min (dexp a) (dexp b) in dec_scaled e a = dec_scaled e b)"

text \<open>The value of a decimal number, as a rational number.\<close>

definition dec_val :: "decimal \<Rightarrow> rat" where
  "dec_val d = of_int (if dsign d then - int (dcoeff d) else int (dcoeff d)) * 10 powi dexp d"


section \<open>Transactions\<close>






subsection \<open>Properties of the decimal arithmetic\<close>

declare ndigits.simps [simp del]






lemma dec_val_scaled:
  assumes "e \<le> dexp d"
  shows "of_int (dec_scaled e d) * 10 powi e = dec_val d"
proof -
  have "(10::rat) ^ nat (dexp d - e) * 10 powi e = 10 powi (dexp d - e) * 10 powi e"
    using assms by (simp add: power_int_def)
  also have "\<dots> = 10 powi dexp d"
    by (simp add: power_int_add [symmetric])
  finally show ?thesis
    by (simp add: dec_scaled_def dec_val_def mult.assoc)
qed









lemma dec_eq_iff: "dec_eq a b \<longleftrightarrow> dec_val a = dec_val b"
proof -
  let ?e = "min (dexp a) (dexp b)"
  have a: "dec_val a = of_int (dec_scaled ?e a) * 10 powi ?e"
    by (rule dec_val_scaled [symmetric]) simp
  have b: "dec_val b = of_int (dec_scaled ?e b) * 10 powi ?e"
    by (rule dec_val_scaled [symmetric]) simp
  have "(10::rat) powi ?e \<noteq> 0" by simp
  then show ?thesis
    unfolding a b dec_eq_def Let_def by simp
qed


subsection \<open>Properties of transactions\<close>



















section \<open>Decimal numbers as text\<close>

text \<open>
  \<^verbatim>\<open>str(d)\<close> for a decimal number (\<^verbatim>\<open>Decimal.__str__\<close>): the digits of the
  coefficient with a point in them when the exponent is at most 0 and the number is not
  too small, scientific notation with one digit before the point otherwise.
\<close>

definition dec_str :: "decimal \<Rightarrow> string" where
  "dec_str d =
     (let ds = nat_str (dcoeff d);
          len = int (length ds);
          leftdigits = dexp d + len;
          dotplace = (if dexp d \<le> 0 \<and> - 6 < leftdigits then leftdigits else 1);
          intpart =
            (if dotplace \<le> 0 then ''0''
             else if len \<le> dotplace then ds @ replicate (nat (dotplace - len)) (CHR ''0'')
             else take (nat dotplace) ds);
          fracpart =
            (if dotplace \<le> 0 then ''.'' @ replicate (nat (- dotplace)) (CHR ''0'') @ ds
             else if len \<le> dotplace then []
             else ''.'' @ drop (nat dotplace) ds);
          exppart =
            (if leftdigits = dotplace then []
             else ''E'' @ (if leftdigits < dotplace then ''-'' else ''+'') @
                  nat_str (nat \<bar>leftdigits - dotplace\<bar>))
      in (if dsign d then ''-'' else []) @ intpart @ fracpart @ exppart)"

text \<open>
  \<^verbatim>\<open>Decimal(s)\<close> for a string: white space around it and all underscores are dropped;
  then an optional sign, digits with an optional point among them (at least one digit),
  and an optional exponent \<open>E\<close> or \<open>e\<close> with an optional sign and digits.  Anything else
  raises \<^verbatim>\<open>decimal.InvalidOperation\<close>, but for the names of the special values
  (\<open>Inf\<close>, \<open>Infinity\<close>, \<open>NaN\<close>, \<open>sNaN\<close> with digits, in any case), which the model
  answers with \<open>NotFinite\<close>.
\<close>

definition is_special_name :: "string \<Rightarrow> bool" where
  "is_special_name u =
     (let l = lower u in
      l = ''inf'' \<or> l = ''infinity'' \<or>
      (take 3 l = ''nan'' \<and> list_all is_digit (drop 3 l)) \<or>
      (take 4 l = ''snan'' \<and> list_all is_digit (drop 4 l)))"

text \<open>The exponent part: nothing, or \<open>E\<close> with an optional sign and at least one digit.\<close>

definition exponent_of :: "string \<Rightarrow> int option" where
  "exponent_of r =
     (case r of
        [] \<Rightarrow> Some 0
      | c # r' \<Rightarrow>
          if c = CHR ''E'' \<or> c = CHR ''e'' then
            (let eneg = (case r' of [] \<Rightarrow> False | x # _ \<Rightarrow> x = CHR ''-'');
                 ed = (case r' of [] \<Rightarrow> [] | x # y \<Rightarrow> if x = CHR ''-'' \<or> x = CHR ''+'' then y else r')
             in if ed \<noteq> [] \<and> list_all is_digit ed
                then Some (if eneg then - int (digits_val ed) else int (digits_val ed))
                else None)
          else None)"

text \<open>The part after the sign.\<close>

definition dec_of_unsigned :: "bool \<Rightarrow> string \<Rightarrow> error + decimal" where
  "dec_of_unsigned neg u =
     (let ip = takeWhile is_digit u;
          r1 = dropWhile is_digit u;
          has_point = (case r1 of [] \<Rightarrow> False | c # _ \<Rightarrow> c = CHR ''.'');
          fp = (if has_point then takeWhile is_digit (tl r1) else []);
          r2 = (if has_point then dropWhile is_digit (tl r1) else r1)
      in if ip = [] \<and> fp = [] then
           (if is_special_name u then Inl NotFinite else Inl InvalidOperation)
         else
           (case exponent_of r2 of
              None \<Rightarrow> Inl InvalidOperation
            | Some e \<Rightarrow>
                Inr \<lparr>dsign = neg, dcoeff = digits_val (ip @ fp), dexp = e - int (length fp)\<rparr>))"

definition dec_of_str :: "string \<Rightarrow> error + decimal" where
  "dec_of_str s =
     (case filter (\<lambda>c. c \<noteq> CHR ''_'') (strip s) of
        [] \<Rightarrow> dec_of_unsigned False []
      | c # r \<Rightarrow>
          if c = CHR ''-'' then dec_of_unsigned True r
          else if c = CHR ''+'' then dec_of_unsigned False r
          else dec_of_unsigned False (c # r))"

text \<open>\<^verbatim>\<open>Decimal(n)\<close> for an integer.\<close>

definition dec_of_int :: "int \<Rightarrow> decimal" where
  "dec_of_int n = \<lparr>dsign = (n < 0), dcoeff = nat \<bar>n\<bar>, dexp = 0\<rparr>"

section \<open>The sales ledger\<close>

text \<open>Sequencing of steps that can raise, and the loops over a list in which the first
  exception ends the loop.\<close>

definition bind_err :: "error + 'a \<Rightarrow> ('a \<Rightarrow> error + 'b) \<Rightarrow> error + 'b" where
  "bind_err m f = (case m of Inl e \<Rightarrow> Inl e | Inr x \<Rightarrow> f x)"

fun map_err :: "('a \<Rightarrow> error + 'b) \<Rightarrow> 'a list \<Rightarrow> error + 'b list" where
  "map_err f [] = Inr []"
| "map_err f (x # xs) =
     bind_err (f x) (\<lambda>y. bind_err (map_err f xs) (\<lambda>ys. Inr (y # ys)))"

fun filter_err :: "('a \<Rightarrow> error + bool) \<Rightarrow> 'a list \<Rightarrow> error + 'a list" where
  "filter_err f [] = Inr []"
| "filter_err f (x # xs) =
     bind_err (f x) (\<lambda>keep. bind_err (filter_err f xs) (\<lambda>ys. Inr (if keep then x # ys else ys)))"

text \<open>\<^verbatim>\<open>Decimal(v)\<close> for a value of a document.  A list read from JSON is refused with
  \<^verbatim>\<open>ValueError\<close> (its coefficient is not a tuple), a dictionary with \<^verbatim>\<open>TypeError\<close>.\<close>

fun dec_of_json :: "json \<Rightarrow> error + decimal" where
  "dec_of_json (JStr s) = dec_of_str s"
| "dec_of_json (JInt n) = Inr (dec_of_int n)"
| "dec_of_json (JList _) = Inl ValueError"
| "dec_of_json (JObj _) = Inl TypeError"

text \<open>The result of \<^verbatim>\<open>sum\<close> over decimal numbers: the integer 0 for no number at
  all; otherwise \<^verbatim>\<open>0 + d\<close> for the first one, which is \<^verbatim>\<open>d.__radd__(0)\<close>, that is,
  \<^verbatim>\<open>d + Decimal(0)\<close>, and then the additions of the others.\<close>

datatype pynumber = PyInt int | PyDecimal decimal

fun sum_decimals :: "decimal list \<Rightarrow> pynumber" where
  "sum_decimals [] = PyInt 0"
| "sum_decimals (d # ds) = PyDecimal (foldl dec_add (dec_add d (dec_of_int 0)) ds)"

fun pynumber_str :: "pynumber \<Rightarrow> string" where
  "pynumber_str (PyInt n) = int_str n"
| "pynumber_str (PyDecimal d) = dec_str d"

text \<open>The argument of \<^verbatim>\<open>datetime.fromisoformat\<close> has to be a string.\<close>

fun as_str :: "json \<Rightarrow> error + string" where
  "as_str (JStr s) = Inr s"
| "as_str _ = Inl TypeError"

text \<open>A quantity that is added to an integer has to be an integer.\<close>

fun as_int :: "json \<Rightarrow> error + int" where
  "as_int (JInt n) = Inr n"
| "as_int _ = Inl TypeError"

text \<open>\<^verbatim>\<open>sum(item["quantity"] for item in t["items"])\<close>.  Iterating over a string or a
  dictionary gives strings, which have no item \<open>quantity\<close>; a number cannot be iterated
  over.\<close>

fun items_sold :: "json \<Rightarrow> error + int" where
  "items_sold (JList xs) =
     bind_err (map_err (\<lambda>item. bind_err (getitem item ''quantity'') as_int) xs)
       (\<lambda>qs. Inr (sum_list qs))"
| "items_sold (JStr s) = (if s = [] then Inr 0 else Inl TypeError)"
| "items_sold (JObj flds) = (if flds = [] then Inr 0 else Inl TypeError)"
| "items_sold (JInt _) = Inl TypeError"

record sales_report =
  report_date :: string
  total_sales :: string
  total_transactions :: nat
  total_items_sold :: int
  transactions :: document

text \<open>
  \<^verbatim>\<open>TransactionManager.get_daily_sales_report\<close>.  \<^verbatim>\<open>datetime.fromisoformat\<close> is a
  parameter: a function from strings to date-times that can raise.
\<close>

definition get_daily_sales_report ::
  "(string \<Rightarrow> error + datetime) \<Rightarrow> storage \<Rightarrow> datetime \<Rightarrow> error + sales_report" where
  "get_daily_sales_report fromisoformat st date =
     bind_err
       (filter_err
          (\<lambda>(k, v). bind_err (getitem v ''timestamp'') (\<lambda>ts. bind_err (as_str ts) (\<lambda>s.
             bind_err (fromisoformat s) (\<lambda>dt. Inr (ddate dt = ddate date)))))
          (load_data st))
       (\<lambda>daily_transactions.
     bind_err
       (map_err (\<lambda>(k, t). bind_err (getitem t ''total_amount'') dec_of_json) daily_transactions)
       (\<lambda>amounts.
     bind_err
       (map_err (\<lambda>(k, t). bind_err (getitem t ''items'') items_sold) daily_transactions)
       (\<lambda>counts.
     Inr \<lparr>report_date = date_isoformat (ddate date),
          total_sales = pynumber_str (sum_decimals amounts),
          total_transactions = length daily_transactions,
          total_items_sold = sum_list counts,
          transactions = daily_transactions\<rparr>)))"

text \<open>No stored transaction has a time stamp on the day of \<open>date\<close>: each has a time
  stamp that \<^verbatim>\<open>fromisoformat\<close> reads, and it is of another day.\<close>

definition no_sales_on :: "(string \<Rightarrow> error + datetime) \<Rightarrow> storage \<Rightarrow> datetime \<Rightarrow> bool" where
  "no_sales_on fromisoformat st date =
     list_all
       (\<lambda>(k, v). case bind_err (getitem v ''timestamp'') (\<lambda>ts. bind_err (as_str ts) fromisoformat) of
            Inl _ \<Rightarrow> False
          | Inr dt \<Rightarrow> ddate dt \<noteq> ddate date)
       (load_data st)"

lemma filter_err_none:
  "list_all (\<lambda>x. f x = Inr False) xs \<Longrightarrow> filter_err f xs = Inr []"
  by (induction xs) (simp_all add: bind_err_def)

lemma daily_report_no_sales:
  assumes "no_sales_on fromisoformat st date"
  shows "get_daily_sales_report fromisoformat st date =
    Inr \<lparr>report_date = date_isoformat (ddate date), total_sales = ''0'',
         total_transactions = 0, total_items_sold = 0, transactions = []\<rparr>"
proof -
  let ?f = "\<lambda>(k, v). bind_err (getitem v ''timestamp'') (\<lambda>ts. bind_err (as_str ts) (\<lambda>s.
             bind_err (fromisoformat s) (\<lambda>dt. Inr (ddate dt = ddate date))))"
  have "list_all (\<lambda>x. ?f x = Inr False) (load_data st)"
    using assms unfolding no_sales_on_def
    by (rule list.pred_mono_strong) (fastforce simp: bind_err_def split: sum.splits)
  then have "filter_err ?f (load_data st) = Inr []"
    by (rule filter_err_none)
  then show ?thesis
    by (simp add: get_daily_sales_report_def bind_err_def int_str_def digit_char_def)
qed

text \<open>
  Claim C5 holds but for the total: with no transaction stored at all (the file is
  missing, unreadable or holds an empty document), whatever the date and whatever
  \<^verbatim>\<open>fromisoformat\<close> does, the report has no transaction, counts 0 transactions and 0
  items, and its \<open>total_sales\<close> is \<^verbatim>\<open>str(sum(...))\<close> of no number at all, which is
  \<open>0\<close>, the text of the integer 0, and not \<open>0.00\<close>.
\<close>

theorem daily_report_of_nothing:
  "get_daily_sales_report fromisoformat \<lparr>contents = Missing, writable = w\<rparr> date =
     Inr \<lparr>report_date = date_isoformat (ddate date), total_sales = ''0'',
          total_transactions = 0, total_items_sold = 0, transactions = []\<rparr> \<and>
   get_daily_sales_report fromisoformat \<lparr>contents = Corrupt, writable = w\<rparr> date =
     Inr \<lparr>report_date = date_isoformat (ddate date), total_sales = ''0'',
          total_transactions = 0, total_items_sold = 0, transactions = []\<rparr> \<and>
   get_daily_sales_report fromisoformat \<lparr>contents = Document [], writable = w\<rparr> date =
     Inr \<lparr>report_date = date_isoformat (ddate date), total_sales = ''0'',
          total_transactions = 0, total_items_sold = 0, transactions = []\<rparr> \<and>
   ''0'' \<noteq> ''0.00''"
  by (simp add: daily_report_no_sales no_sales_on_def load_data_def)

section \<open>Expiring products\<close>

text \<open>The calendar: the number of a day, counted from 1 for the first of January of the
  year 1 (\<^verbatim>\<open>date.toordinal()\<close>).\<close>

definition is_leap :: "nat \<Rightarrow> bool" where
  "is_leap y = (y mod 4 = 0 \<and> (y mod 100 \<noteq> 0 \<or> y mod 400 = 0))"

definition days_in_month :: "nat \<Rightarrow> nat \<Rightarrow> nat" where
  "days_in_month y m =
     (if m = 2 then (if is_leap y then 29 else 28)
      else if m = 4 \<or> m = 6 \<or> m = 9 \<or> m = 11 then 30 else 31)"

definition days_before_year :: "nat \<Rightarrow> int" where
  "days_before_year y =
     (let p = int y - 1 in p * 365 + p div 4 - p div 100 + p div 400)"

definition days_before_month :: "nat \<Rightarrow> nat \<Rightarrow> int" where
  "days_before_month y m =
     [0, 0, 31, 59, 90, 120, 151, 181, 212, 243, 273, 304, 334] ! m +
     (if 2 < m \<and> is_leap y then 1 else 0)"

definition toordinal :: "pydate \<Rightarrow> int" where
  "toordinal d = days_before_year (year d) + days_before_month (year d) (month d) + int (day d)"

text \<open>
  \<^verbatim>\<open>(a - b).days\<close> for two date-times: the difference is a \<^verbatim>\<open>timedelta\<close>, whose
  seconds and microseconds are never negative, so that its days are the difference in
  microseconds divided by the microseconds of a day and rounded down.
\<close>

definition day_micros :: int where
  "day_micros = 86400 * 1000000"

definition micros_of_day :: "datetime \<Rightarrow> int" where
  "micros_of_day t =
     ((int (hour t) * 60 + int (minute t)) * 60 + int (second t)) * 1000000 + int (microsecond t)"

definition delta_days :: "datetime \<Rightarrow> datetime \<Rightarrow> int" where
  "delta_days a b =
     ((toordinal (ddate a) * day_micros + micros_of_day a) -
      (toordinal (ddate b) * day_micros + micros_of_day b)) div day_micros"

text \<open>
  \<^verbatim>\<open>datetime.strptime(s, "%Y-%m-%d")\<close>: four digits for the year, a month from 1 to 12
  and a day from 1 to 31, each with or without a zero in front (the day also with a
  space), with \<open>-\<close> between them and nothing after them; the date has to exist.  The
  result is the midnight of that date.  Everything else is a \<^verbatim>\<open>ValueError\<close>.
\<close>

definition month_field :: "string \<Rightarrow> nat option" where
  "month_field m =
     (case m of
        [c] \<Rightarrow> if is_digit c \<and> c \<noteq> CHR ''0'' then Some (digit_val c) else None
      | [c, d] \<Rightarrow>
          if c = CHR ''0'' \<and> is_digit d \<and> d \<noteq> CHR ''0'' then Some (digit_val d)
          else if c = CHR ''1'' \<and> (d = CHR ''0'' \<or> d = CHR ''1'' \<or> d = CHR ''2'')
          then Some (10 + digit_val d)
          else None
      | _ \<Rightarrow> None)"

definition day_field :: "string \<Rightarrow> nat option" where
  "day_field s =
     (case s of
        [c] \<Rightarrow> if is_digit c \<and> c \<noteq> CHR ''0'' then Some (digit_val c) else None
      | [c, d] \<Rightarrow>
          if (c = CHR ''0'' \<or> c = CHR '' '') \<and> is_digit d \<and> d \<noteq> CHR ''0'' then Some (digit_val d)
          else if (c = CHR ''1'' \<or> c = CHR ''2'') \<and> is_digit d then Some (10 * digit_val c + digit_val d)
          else if c = CHR ''3'' \<and> (d = CHR ''0'' \<or> d = CHR ''1'') then Some (30 + digit_val d)
          else None
      | _ \<Rightarrow> None)"

definition midnight :: "pydate \<Rightarrow> datetime" where
  "midnight d = \<lparr>ddate = d, hour = 0, minute = 0, second = 0, microsecond = 0\<rparr>"

definition strptime_ymd :: "string \<Rightarrow> error + datetime" where
  "strptime_ymd s =
     (let y = take 4 s;
          rest = drop 5 s;
          m = takeWhile (\<lambda>c. c \<noteq> CHR ''-'') rest;
          r = dropWhile (\<lambda>c. c \<noteq> CHR ''-'') rest
      in if length y = 4 \<and> list_all is_digit y \<and> take 1 (drop 4 s) = ''-'' \<and> r \<noteq> [] then
           (case (month_field m, day_field (tl r)) of
              (Some mo, Some da) \<Rightarrow>
                if 1 \<le> digits_val y \<and> da \<le> days_in_month (digits_val y) mo
                then Inr (midnight \<lparr>year = digits_val y, month = mo, day = da\<rparr>)
                else Inl ValueError
            | _ \<Rightarrow> Inl ValueError)
         else Inl ValueError)"

text \<open>
  \<^verbatim>\<open>Inventory.get_expiring_products\<close>, with the result of \<^verbatim>\<open>datetime.now()\<close> as the
  parameter \<open>today\<close>, named as the variable that holds it.
\<close>

definition get_expiring_products :: "storage \<Rightarrow> datetime \<Rightarrow> int \<Rightarrow> error + json list" where
  "get_expiring_products st today days =
     filter_err
       (\<lambda>product.
          bind_err (getitem product ''expiry_date'') (\<lambda>v. bind_err (as_str v) (\<lambda>s.
          bind_err (strptime_ymd s) (\<lambda>expiry. Inr (delta_days expiry today \<le> days)))))
       (map snd (load_data st))"

lemmas calendar_simps =
  toordinal_def days_before_year_def days_before_month_def days_in_month_def is_leap_def
  day_micros_def micros_of_day_def delta_days_def midnight_def nov_3_def dec_4_def
  nov_3_at_10_def

lemmas strptime_simps =
  strptime_ymd_def month_field_def day_field_def is_digit_def digit_val_def digits_val_def

text \<open>With the time of day at midnight the count is the difference of the two dates.  Later
  in the day the count is one less.\<close>

lemma delta_days_midnight:
  assumes "micros_of_day today < day_micros"
  shows "delta_days (midnight d) today =
    toordinal d - toordinal (ddate today) - (if micros_of_day today = 0 then 0 else 1)"
proof -
  have nonneg: "0 \<le> micros_of_day today"
    by (simp add: micros_of_day_def)
  have pos: "0 < day_micros"
    by (simp add: day_micros_def)
  let ?n = "toordinal d - toordinal (ddate today)"
  have m: "micros_of_day (midnight d) = 0"
    by (simp add: micros_of_day_def midnight_def)
  have dd: "ddate (midnight d) = d"
    by (simp add: midnight_def)
  have e: "delta_days (midnight d) today = (?n * day_micros - micros_of_day today) div day_micros"
    by (simp add: delta_days_def m dd algebra_simps)
  show ?thesis
  proof (cases "micros_of_day today = 0")
    case True
    with pos show ?thesis by (simp add: e)
  next
    case False
    with nonneg have p: "0 < micros_of_day today" by simp
    define r where "r = day_micros - micros_of_day today"
    have r: "0 \<le> r" "r < day_micros"
      using p assms by (simp_all add: r_def)
    have "?n * day_micros - micros_of_day today = (?n - 1) * day_micros + r"
      by (simp add: r_def algebra_simps)
    moreover have "((?n - 1) * day_micros + r) div day_micros = ?n - 1"
      using r pos by (simp add: div_pos_pos_trivial)
    ultimately have "(?n * day_micros - micros_of_day today) div day_micros = ?n - 1"
      by (simp only:)
    with False show ?thesis by (simp add: e)
  qed
qed

text \<open>
  Claim C7 fails on the code by one day.  The expiry date is read as the midnight of its
  day and the current moment is taken with its time of day, and the days of their
  difference are rounded down.  At ten o'clock on the third of November 2026 the product
  that expires on the fourth of December, 31 days later, is returned for \<open>days = 30\<close>;
  at midnight of the same day it is not.
\<close>

theorem get_expiring_products_off_by_one:
  "getitem tea ''expiry_date'' = Inr (JStr ''2026-12-04'') \<and>
   strptime_ymd ''2026-12-04'' = Inr (midnight dec_4) \<and>
   toordinal dec_4 - toordinal nov_3 = 31 \<and>
   delta_days (midnight dec_4) nov_3_at_10 = 30 \<and>
   get_expiring_products shop nov_3_at_10 30 = Inr [tea] \<and>
   get_expiring_products shop (midnight nov_3) 30 = Inr []"
proof -
  have g: "getitem tea ''expiry_date'' = Inr (JStr ''2026-12-04'')"
    by (simp add: tea_def tea_fields_def)
  have p: "strptime_ymd ''2026-12-04'' = Inr (midnight dec_4)"
    by (simp add: strptime_simps dec_4_def days_in_month_def)
  have o: "toordinal dec_4 = 739954" "toordinal nov_3 = 739923"
    by (simp_all add: toordinal_def days_before_year_def days_before_month_def is_leap_def
        dec_4_def nov_3_def)
  have d10: "delta_days (midnight dec_4) nov_3_at_10 = 30"
    by (simp add: delta_days_def o midnight_def nov_3_at_10_def micros_of_day_def day_micros_def)
  have d0: "delta_days (midnight dec_4) (midnight nov_3) = 31"
    by (simp add: delta_days_def o midnight_def micros_of_day_def day_micros_def)
  have l: "map snd (load_data shop) = [tea]"
    by (simp add: shop_def load_data_def)
  have r10: "get_expiring_products shop nov_3_at_10 30 = Inr [tea]"
    by (simp add: get_expiring_products_def l g p d10 bind_err_def)
  have r0: "get_expiring_products shop (midnight nov_3) 30 = Inr []"
    by (simp add: get_expiring_products_def l g p d0 bind_err_def)
  from g p o d10 r10 r0 show ?thesis by simp
qed

section \<open>Records and their documents\<close>













subsection \<open>The text of a decimal number read back\<close>

declare nat_str.simps [simp del]



























lemma digits_val_take_drop: "digits_val (take k s @ drop k s) = digits_val s"
  by simp












section \<open>The admin menu: adding a product\<close>

text \<open>The six texts that \<^verbatim>\<open>_add_product\<close> reads from the terminal.\<close>

record product_form =
  form_product_id :: string
  form_name :: string
  form_category :: string
  form_price :: string
  form_quantity :: string
  form_expiry_date :: string

text \<open>
  \<^verbatim>\<open>InventoryManagementSystem._add_product\<close>.  The price is \<^verbatim>\<open>float(input(...))\<close>, a
  binary floating-point number; Python's \<^verbatim>\<open>float\<close> on a string and \<^verbatim>\<open>str\<close> on a float
  are the parameters \<open>float_of_str\<close> and \<open>float_str\<close>, and \<open>'f\<close> is the type of the
  floats.  The quantity is \<^verbatim>\<open>int(input(...))\<close>.  The result is that of \<^verbatim>\<open>add_product\<close>,
  or the exception of a conversion.
\<close>

definition admin_add_product ::
  "(string \<Rightarrow> error + 'f) \<Rightarrow> ('f \<Rightarrow> string) \<Rightarrow> storage \<Rightarrow> product_form \<Rightarrow> (error + bool) \<times> storage" where
  "admin_add_product float_of_str float_str st form =
     (case float_of_str (form_price form) of
        Inl e \<Rightarrow> (Inl e, st)
      | Inr price_read \<Rightarrow>
          (case int_of_str (form_quantity form) of
             Inl e \<Rightarrow> (Inl e, st)
           | Inr quantity_read \<Rightarrow>
               add_product float_str st
                 \<lparr>product_id = form_product_id form, name = form_name form,
                  category = form_category form, price = price_read,
                  quantity = quantity_read, expiry_date = form_expiry_date form\<rparr>))"

lemma update_new_key: "map_of al k = None \<Longrightarrow> AList.update k v al = al @ [(k, v)]"
  by (induction al) (auto split: if_splits)

text \<open>
  Claim C6 fails on the code in the admin menu.  Whatever text is entered as the price, it
  is turned into a float, and the price that reaches the catalog is \<^verbatim>\<open>str\<close> of that
  float: the product is appended to the catalog with the field \<open>price\<close> holding
  \<open>float_str x\<close> for the float \<open>x\<close> that \<open>float_of_str\<close> returned.  No decimal number
  takes part.
\<close>

theorem admin_add_product_stores_float:
  "admin_add_product float_of_str float_str st form =
     (case float_of_str (form_price form) of
        Inl e \<Rightarrow> (Inl e, st)
      | Inr x \<Rightarrow>
          (case int_of_str (form_quantity form) of
             Inl e \<Rightarrow> (Inl e, st)
           | Inr q \<Rightarrow>
               (case map_of (load_data st) (form_product_id form) of
                  Some r \<Rightarrow> (Inr False, st)
                | None \<Rightarrow>
                    (Inr True,
                     save_data st
                       (load_data st @
                        [(form_product_id form,
                          JObj [(''product_id'', JStr (form_product_id form)),
                                (''name'', JStr (form_name form)),
                                (''category'', JStr (form_category form)),
                                (''price'', JStr (float_str x)),
                                (''quantity'', JInt q),
                                (''expiry_date'', JStr (form_expiry_date form))])])))))"
  by (simp add: admin_add_product_def add_product_def product_to_dict_def Let_def update_new_key
      split: sum.splits option.splits)

end
